theory Spec2Isabelle
  imports Main "HOL-Library.List_Lexorder" "HOL-Library.Char_ord"
begin

section \<open>Python values, strings and paths\<close>

text \<open>
  Slot values of \<^verbatim>\<open>AtomicCmd\<close>: \<^verbatim>\<open>None\<close>, a string, an integer
  (\<^verbatim>\<open>AtomicCmd.PIPE\<close> is \<^verbatim>\<open>subprocess.PIPE\<close>, the integer -1), a reference to another
  \<^verbatim>\<open>AtomicCmd\<close> object, or a callable.
\<close>

datatype pyval = PNone | PStr string | PInt int | PCmd nat | PCallable nat

definition PIPE :: pyval where
  "PIPE = PInt (- 1)"

fun truthy :: "pyval \<Rightarrow> bool" where
  "truthy PNone = False"
| "truthy (PStr s) = (s \<noteq> [])"
| "truthy (PInt i) = (i \<noteq> 0)"
| "truthy (PCmd _) = True"
| "truthy (PCallable _) = True"

fun is_string :: "pyval \<Rightarrow> bool" where
  "is_string (PStr _) = True"
| "is_string _ = False"

fun is_callable :: "pyval \<Rightarrow> bool" where
  "is_callable (PCallable _) = True"
| "is_callable _ = False"

fun is_cmd :: "pyval \<Rightarrow> bool" where
  "is_cmd (PCmd _) = True"
| "is_cmd _ = False"

text \<open>Exceptions of the source as values; \<^verbatim>\<open>OSError\<close> and \<^verbatim>\<open>IOError\<close> come from
  the operating system and carry no modelled message.\<close>

datatype error =
    CmdError string
  | ValueError string
  | TypeError string
  | KeyError string
  | IndexError
  | OSError
  | IOError

definition startswith :: "string \<Rightarrow> string \<Rightarrow> bool" where
  "startswith s p = (take (length p) s = p)"

definition rstrip :: "char \<Rightarrow> string \<Rightarrow> string" where
  "rstrip c s = rev (dropWhile (\<lambda>x. x = c) (rev s))"

text \<open>\<^verbatim>\<open>sep.join(xs)\<close>.\<close>

fun str_join :: "string \<Rightarrow> string list \<Rightarrow> string" where
  "str_join sep [] = []"
| "str_join sep [x] = x"
| "str_join sep (x # y # ys) = x @ sep @ str_join sep (y # ys)"

text \<open>\<^verbatim>\<open>key.split("_", 1)[0]\<close>: the part of the key before its first underscore.\<close>

definition split_first :: "string \<Rightarrow> string" where
  "split_first key = takeWhile (\<lambda>x. x \<noteq> CHR ''_'') key"

text \<open>\<^verbatim>\<open>posixpath.basename\<close>: everything after the last slash.\<close>

definition basename :: "string \<Rightarrow> string" where
  "basename p = rev (takeWhile (\<lambda>x. x \<noteq> CHR ''/'') (rev p))"

text \<open>\<^verbatim>\<open>posixpath.dirname\<close>: everything up to the last slash, with trailing slashes
  stripped unless the head consists of slashes only.\<close>

definition dirname :: "string \<Rightarrow> string" where
  "dirname p =
     (let head = rev (dropWhile (\<lambda>x. x \<noteq> CHR ''/'') (rev p))
      in if head \<noteq> [] \<and> head \<noteq> replicate (length head) (CHR ''/'')
         then rstrip (CHR ''/'') head else head)"

text \<open>\<^verbatim>\<open>posixpath.join(a, b)\<close> for two components.\<close>

definition path_join :: "string \<Rightarrow> string \<Rightarrow> string" where
  "path_join a b =
     (if startswith b ''/'' then b
      else if a = [] \<or> last a = CHR ''/'' then a @ b
      else a @ ''/'' @ b)"

text \<open>\<^verbatim>\<open>str.lower\<close> on ASCII letters.\<close>

definition lower_char :: "char \<Rightarrow> char" where
  "lower_char c =
     (case map_of (zip ''ABCDEFGHIJKLMNOPQRSTUVWXYZ'' ''abcdefghijklmnopqrstuvwxyz'') c of
        None \<Rightarrow> c | Some d \<Rightarrow> d)"

definition lower :: "string \<Rightarrow> string" where
  "lower s = map lower_char s"

text \<open>Decimal digits of a natural number, and \<^verbatim>\<open>"%i" % n\<close> for an integer.\<close>

definition digit_char :: "nat \<Rightarrow> char" where
  "digit_char d = ''0123456789'' ! (d mod 10)"

function str_nat :: "nat \<Rightarrow> string" where
  "str_nat n = (if n < 10 then [digit_char n] else str_nat (n div 10) @ [digit_char (n mod 10)])"
  by pat_completeness auto
termination
  by (relation "measure id") auto

declare str_nat.simps [simp del]

definition str_int :: "int \<Rightarrow> string" where
  "str_int i = (if i < 0 then CHR ''-'' # str_nat (nat (- i)) else str_nat (nat i))"

section \<open>Dictionaries\<close>

text \<open>
  A Python dictionary is an association list with pairwise distinct keys; the order of
  the list stands for the iteration order of the dictionary.
\<close>

type_synonym ('k, 'v) dict = "('k \<times> 'v) list"

definition dict_get :: "('k, 'v) dict \<Rightarrow> 'k \<Rightarrow> 'v option" where
  "dict_get d k = map_of d k"

text \<open>\<^verbatim>\<open>d[k] = v\<close>: replaces the value of an existing key, adds a new key otherwise.\<close>

fun dict_set :: "('k, 'v) dict \<Rightarrow> 'k \<Rightarrow> 'v \<Rightarrow> ('k, 'v) dict" where
  "dict_set [] k v = [(k, v)]"
| "dict_set ((k', v') # d) k v = (if k' = k then (k, v) # d else (k', v') # dict_set d k v)"

text \<open>\<^verbatim>\<open>kwargs.get(k)\<close>, whose default is \<^verbatim>\<open>None\<close>.\<close>

definition kw_get :: "(string, pyval) dict \<Rightarrow> string \<Rightarrow> pyval" where
  "kw_get kwargs k = (case dict_get kwargs k of None \<Rightarrow> PNone | Some v \<Rightarrow> v)"

section \<open>The atomic command: argument validation\<close>

definition PIPES :: "string list" where
  "PIPES = [''IN_STDIN'', ''OUT_STDOUT'', ''OUT_STDERR'']"

definition PREFIXES :: "string list" where
  "PREFIXES = [''IN_'', ''TEMP_IN_'', ''OUT_'', ''TEMP_OUT_'', ''EXEC_'', ''AUX_'', ''CHECK_'']"

text \<open>
  The functions below take \<open>repr\<close>, Python's \<^verbatim>\<open>repr\<close> of a value (the \<^verbatim>\<open>%r\<close> of the
  error messages), as a parameter.
\<close>

definition validate_pipes :: "(string, pyval) dict \<Rightarrow> error + unit" where
  "validate_pipes kwargs =
     (if list_ex (\<lambda>pipe. truthy (kw_get kwargs pipe) \<and> truthy (kw_get kwargs (''TEMP_'' @ pipe))) PIPES
      then Inl (CmdError ''Pipes must be specified at most once (w/wo TEMP_).'')
      else Inr ())"

text \<open>The type rules of \<^verbatim>\<open>_validate_argument\<close> (its second \<^verbatim>\<open>if\<close>/\<^verbatim>\<open>elif\<close>
  chain): the \<^verbatim>\<open>TypeError\<close> raised for the value of a key, if any.\<close>

definition type_error :: "(pyval \<Rightarrow> string) \<Rightarrow> string \<Rightarrow> pyval \<Rightarrow> error option" where
  "type_error repr key val =
     (if key \<in> set [''OUT_STDOUT'', ''TEMP_OUT_STDOUT'']
      then (if \<not> (is_string val \<or> val = PIPE)
            then Some (TypeError (''STDOUT must be a string or AtomicCmd.PIPE, not '' @ repr val))
            else None)
      else if key \<in> set [''IN_STDIN'', ''TEMP_IN_STDIN'']
      then (if \<not> (is_string val \<or> is_cmd val)
            then Some (TypeError (''STDIN must be string or AtomicCmd, not '' @ repr val))
            else None)
      else if startswith key ''CHECK_''
      then (if \<not> is_callable val
            then Some (TypeError (''CHECK must be callable, not '' @ repr val))
            else None)
      else if \<not> is_string val
      then Some (TypeError (key @ '' must be string, not '' @ repr val))
      else None)"

definition has_dirname :: "pyval \<Rightarrow> bool" where
  "has_dirname val = (case val of PStr s \<Rightarrow> dirname s \<noteq> [] | _ \<Rightarrow> False)"

definition validate_argument :: "(pyval \<Rightarrow> string) \<Rightarrow> string \<Rightarrow> pyval \<Rightarrow> error + bool" where
  "validate_argument repr key val =
     (if (rstrip (CHR ''_'') key @ ''_'') \<in> set PREFIXES
      then Inl (ValueError (''Argument key lacks name: '' @ repr (PStr key)))
      else if \<not> list_ex (\<lambda>prefix. startswith key prefix) PREFIXES
      then Inl (ValueError (''Command contains invalid argument (wrong prefix): ''
                            @ [CHR 0x27] @ ''AtomicCmd'' @ [CHR 0x27] @ '' -> ''
                            @ [CHR 0x27] @ key @ [CHR 0x27]))
      else if val = PNone then Inr False
      else (case type_error repr key val of
              Some e \<Rightarrow> Inl e
            | None \<Rightarrow>
                if startswith key ''TEMP_'' \<and> is_string val \<and> has_dirname val
                then Inl (ValueError (key @ '' cannot contain directory component: '' @ repr val))
                else Inr True))"

text \<open>The first loop of \<^verbatim>\<open>_process_arguments\<close>: validated entries are copied to
  \<open>files\<close>, entries whose value is \<^verbatim>\<open>None\<close> are skipped, the first error is raised.\<close>

fun collect_files ::
  "(pyval \<Rightarrow> string) \<Rightarrow> (string, pyval) dict \<Rightarrow> (string, pyval) dict \<Rightarrow> error + (string, pyval) dict" where
  "collect_files repr [] files = Inr files"
| "collect_files repr ((key, val) # kwargs) files =
     (case validate_argument repr key val of
        Inl e \<Rightarrow> Inl e
      | Inr keep \<Rightarrow> collect_files repr kwargs (if keep then dict_set files key val else files))"

text \<open>The second loop: the names of the standard output streams that were not given.\<close>

definition pipe_filename :: "string \<Rightarrow> int \<Rightarrow> string \<Rightarrow> string" where
  "pipe_filename executable proc_id pipe =
     ''pipe_'' @ executable @ ''_'' @ str_int proc_id @ ''.'' @ lower pipe"

fun fill_pipes ::
  "string \<Rightarrow> int \<Rightarrow> (string, pyval) dict \<Rightarrow> string list \<Rightarrow> (string, pyval) dict \<Rightarrow> (string, pyval) dict" where
  "fill_pipes executable proc_id kwargs [] files = files"
| "fill_pipes executable proc_id kwargs (pipe # pipes) files =
     fill_pipes executable proc_id kwargs pipes
       (if \<not> (truthy (kw_get kwargs (''OUT_'' @ pipe)) \<or> truthy (kw_get kwargs (''TEMP_OUT_'' @ pipe)))
        then dict_set files (''TEMP_OUT_'' @ pipe) (PStr (pipe_filename executable proc_id pipe))
        else files)"

text \<open>The third loop: \<^verbatim>\<open>output_files[basename(filename)].append(key)\<close> over the
  caller's keyword arguments.\<close>

definition is_output_key :: "string \<Rightarrow> bool" where
  "is_output_key key = (startswith key ''TEMP_OUT_'' \<or> startswith key ''OUT_'')"

definition dict_append :: "(string, string list) dict \<Rightarrow> string \<Rightarrow> string \<Rightarrow> (string, string list) dict" where
  "dict_append d k x = dict_set d k ((case dict_get d k of None \<Rightarrow> [] | Some xs \<Rightarrow> xs) @ [x])"

fun collect_outputs :: "(string, pyval) dict \<Rightarrow> (string, string list) dict \<Rightarrow> (string, string list) dict" where
  "collect_outputs [] out = out"
| "collect_outputs ((key, val) # kwargs) out =
     collect_outputs kwargs
       (case val of
          PStr filename \<Rightarrow> if is_output_key key then dict_append out (basename filename) key else out
        | _ \<Rightarrow> out)"

text \<open>The fourth loop: the first filename with more than one key is reported.\<close>

fun check_outputs :: "(string, string list) dict \<Rightarrow> error + unit" where
  "check_outputs [] = Inr ()"
| "check_outputs ((filename, keys) # out) =
     (if length keys > 1
      then Inl (ValueError (''Same output filename ('' @ filename
                            @ '') is specified for multiple keys: '' @ str_join '', '' keys))
      else check_outputs out)"

text \<open>The keys of the caller's output slots whose value is a path with a given
  basename, in the order of the keyword arguments.\<close>

definition has_basename :: "string \<Rightarrow> pyval \<Rightarrow> bool" where
  "has_basename f val = (case val of PStr p \<Rightarrow> basename p = f | _ \<Rightarrow> False)"

definition keys_of_output :: "(string, pyval) dict \<Rightarrow> string \<Rightarrow> string list" where
  "keys_of_output kwargs f =
     map fst (filter (\<lambda>(key, val). is_output_key key \<and> has_basename f val) kwargs)"

definition process_arguments ::
  "(pyval \<Rightarrow> string) \<Rightarrow> int \<Rightarrow> string list \<Rightarrow> (string, pyval) dict \<Rightarrow> error + (string, pyval) dict" where
  "process_arguments repr proc_id command kwargs =
     (case validate_pipes kwargs of
        Inl e \<Rightarrow> Inl e
      | Inr _ \<Rightarrow>
     (case collect_files repr kwargs [] of
        Inl e \<Rightarrow> Inl e
      | Inr files \<Rightarrow>
     (case command of
        [] \<Rightarrow> Inl IndexError
      | c0 # _ \<Rightarrow>
     (let files' = fill_pipes (basename c0) proc_id kwargs [''STDOUT'', ''STDERR''] files
      in case check_outputs (collect_outputs kwargs []) of
           Inl e \<Rightarrow> Inl e
         | Inr _ \<Rightarrow> Inr files'))))"

section \<open>The filename resolver\<close>

text \<open>
  \<^verbatim>\<open>os.path.abspath\<close> depends on the working directory of the process; it is the
  parameter \<open>abspath\<close>.
\<close>

definition resolve :: "(string \<Rightarrow> string) \<Rightarrow> string \<Rightarrow> string \<Rightarrow> pyval \<Rightarrow> pyval" where
  "resolve abspath root key val =
     (case val of
        PStr filename \<Rightarrow>
          if startswith key ''TEMP_'' \<or> startswith key ''OUT_''
          then PStr (path_join root (basename filename))
          else if root = [] \<and> (startswith key ''IN_'' \<or> startswith key ''AUX_'')
          then PStr (abspath filename)
          else PStr filename
      | _ \<Rightarrow> val)"

fun fill_filenames ::
  "(string \<Rightarrow> string) \<Rightarrow> string \<Rightarrow> (string, pyval) dict \<Rightarrow> (string, pyval) dict \<Rightarrow> (string, pyval) dict" where
  "fill_filenames abspath root [] filenames = filenames"
| "fill_filenames abspath root ((key, val) # files) filenames =
     fill_filenames abspath root files (dict_set filenames key (resolve abspath root key val))"

definition generate_filenames ::
  "(string \<Rightarrow> string) \<Rightarrow> (string, pyval) dict \<Rightarrow> string \<Rightarrow> (string, pyval) dict" where
  "generate_filenames abspath files root =
     fill_filenames abspath root files [(''TEMP_DIR'', PStr root)]"

section \<open>The file-set index\<close>

record file_sets =
  fs_executable :: "string list"
  fs_requirements :: "pyval list"
  fs_input :: "string list"
  fs_output :: "string list"
  fs_auxiliary :: "string list"
  fs_temporary_fname :: "string list"
  fs_output_fname :: "string list"

text \<open>
  The sets of \<^verbatim>\<open>_build_files_map\<close> are lists without repetition; \<open>List.insert\<close> is
  \<^verbatim>\<open>set.add\<close>. A value that is not a string reaches the loop body only under a
  \<^verbatim>\<open>CHECK_\<close> key, so the sets of paths hold strings.
\<close>

definition add_by_kind :: "string \<Rightarrow> pyval \<Rightarrow> file_sets \<Rightarrow> error + file_sets" where
  "add_by_kind key val sets =
     (let kind = split_first key;
          name = (case val of PStr f \<Rightarrow> f | _ \<Rightarrow> [])
      in if kind = ''IN'' then Inr (sets\<lparr>fs_input := List.insert name (fs_input sets)\<rparr>)
         else if kind = ''OUT'' then Inr (sets\<lparr>fs_output := List.insert name (fs_output sets)\<rparr>)
         else if kind = ''TEMP''
         then Inr (sets\<lparr>fs_temporary_fname := List.insert name (fs_temporary_fname sets)\<rparr>)
         else if kind = ''EXEC''
         then Inr (sets\<lparr>fs_executable := List.insert name (fs_executable sets)\<rparr>)
         else if kind = ''AUX''
         then Inr (sets\<lparr>fs_auxiliary := List.insert name (fs_auxiliary sets)\<rparr>)
         else if kind = ''CHECK''
         then Inr (sets\<lparr>fs_requirements := List.insert val (fs_requirements sets)\<rparr>)
         else Inl (KeyError kind))"

fun fill_file_sets :: "(string, pyval) dict \<Rightarrow> file_sets \<Rightarrow> error + file_sets" where
  "fill_file_sets [] sets = Inr sets"
| "fill_file_sets ((key, val) # files) sets =
     (if is_string val \<or> startswith key ''CHECK_''
      then (if startswith key ''TEMP_OUT_''
            then fill_file_sets files
                   (sets\<lparr>fs_temporary_fname :=
                      List.insert (case val of PStr f \<Rightarrow> f | _ \<Rightarrow> []) (fs_temporary_fname sets)\<rparr>)
            else if \<not> startswith key ''TEMP_''
            then (case add_by_kind key val sets of
                    Inl e \<Rightarrow> Inl e
                  | Inr sets' \<Rightarrow> fill_file_sets files sets')
            else fill_file_sets files sets)
      else fill_file_sets files sets)"

definition build_files_map :: "string list \<Rightarrow> (string, pyval) dict \<Rightarrow> error + file_sets" where
  "build_files_map command files =
     (case command of
        [] \<Rightarrow> Inl IndexError
      | c0 # _ \<Rightarrow>
          (case fill_file_sets files
                  \<lparr>fs_executable = [c0], fs_requirements = [], fs_input = [], fs_output = [],
                   fs_auxiliary = [], fs_temporary_fname = [], fs_output_fname = []\<rparr> of
             Inl e \<Rightarrow> Inl e
           | Inr sets \<Rightarrow>
               Inr (sets\<lparr>fs_temporary_fname := remdups (map basename (fs_temporary_fname sets)),
                         fs_output_fname := remdups (map basename (fs_output sets))\<rparr>)))"

section \<open>Building the call\<close>

text \<open>
  Python's \<^verbatim>\<open>field % kwords\<close> is a parameter: it returns the formatted string, or the
  exception it raised with the text of \<^verbatim>\<open>str(error)\<close>.
\<close>

datatype fmt_error = FmtTypeError string | FmtValueError string | FmtKeyError string

record env =
  env_repr :: "pyval \<Rightarrow> string"
  env_abspath :: "string \<Rightarrow> string"
  env_format :: "string \<Rightarrow> (string, pyval) dict \<Rightarrow> fmt_error + string"

text \<open>\<^verbatim>\<open>str\<close> of a list of strings.\<close>

definition str_list :: "(pyval \<Rightarrow> string) \<Rightarrow> string list \<Rightarrow> string" where
  "str_list repr xs = ''['' @ str_join '', '' (map (\<lambda>x. repr (PStr x)) xs) @ '']''"

fun format_all :: "env \<Rightarrow> (string, pyval) dict \<Rightarrow> string list \<Rightarrow> fmt_error + string list" where
  "format_all e kwords [] = Inr []"
| "format_all e kwords (field # rest) =
     (case env_format e field kwords of
        Inl err \<Rightarrow> Inl err
      | Inr x \<Rightarrow> (case format_all e kwords rest of Inl err \<Rightarrow> Inl err | Inr xs \<Rightarrow> Inr (x # xs)))"

definition call_error :: "env \<Rightarrow> string list \<Rightarrow> fmt_error \<Rightarrow> error" where
  "call_error e command err =
     (let head = ''Error building Atomic Command:'' @ [CHR 0x0A] @ ''  Call = ''
                 @ str_list (env_repr e) command @ [CHR 0x0A]
      in case err of
           FmtTypeError m \<Rightarrow> CmdError (head @ ''  Error = TypeError: '' @ m)
         | FmtValueError m \<Rightarrow> CmdError (head @ ''  Error = ValueError: '' @ m)
         | FmtKeyError m \<Rightarrow> CmdError (head @ ''  Value not specified for path = '' @ m))"

definition generate_call :: "env \<Rightarrow> string list \<Rightarrow> (string, pyval) dict \<Rightarrow> string \<Rightarrow> error + string list" where
  "generate_call e command files temp =
     (case format_all e (generate_filenames (env_abspath e) files temp) command of
        Inl err \<Rightarrow> Inl (call_error e command err)
      | Inr call \<Rightarrow> Inr call)"

section \<open>The descriptor and its construction\<close>

text \<open>A \<^verbatim>\<open>subprocess.Popen\<close> object: the child's pid, the exit status once it has been
  collected, and the readable end of its standard output when that is a pipe.\<close>

record popen =
  pid :: nat
  returncode :: "int option"
  popen_stdout :: "nat option"

record atomic_cmd =
  proc :: "popen option"
  temp :: "string option"
  command :: "string list"
  handles :: "(string, string \<times> nat) dict"
  set_cwd :: bool
  files :: "(string, pyval) dict"
  file_sets :: file_sets

text \<open>
  \<^verbatim>\<open>AtomicCmd.__init__\<close>; \<open>proc_id\<close> is \<^verbatim>\<open>id(self)\<close>, and \<open>cmd\<close> is the command
  after \<^verbatim>\<open>map(str, safe_coerce_to_tuple(command))\<close>.
\<close>

definition init ::
  "env \<Rightarrow> int \<Rightarrow> string list \<Rightarrow> bool \<Rightarrow> (string, pyval) dict \<Rightarrow> error + atomic_cmd" where
  "init e proc_id cmd cwd kwargs =
     (if cmd = [] \<or> hd cmd = [] then Inl (ValueError ''Empty command in AtomicCmd constructor'')
      else case process_arguments (env_repr e) proc_id cmd kwargs of
        Inl err \<Rightarrow> Inl err
      | Inr fls \<Rightarrow>
     (case build_files_map cmd fls of
        Inl err \<Rightarrow> Inl err
      | Inr sets \<Rightarrow>
     (case generate_call e cmd fls [] of
        Inl err \<Rightarrow> Inl err
      | Inr _ \<Rightarrow>
          Inr \<lparr>proc = None, temp = None, command = cmd, handles = [], set_cwd = cwd,
               files = fls, file_sets = sets\<rparr>)))"

section \<open>The operating system\<close>

text \<open>
  A child process is running, has terminated without having been waited for, or is not
  (or no longer) a child of the host process. \<open>Running f\<close> carries the status with which
  the child will terminate (\<open>None\<close>: it never terminates by itself).
\<close>

datatype child = Running "int option" | Exited int | Gone

text \<open>A standard stream handed to \<^verbatim>\<open>Popen\<close>: nothing, the \<^verbatim>\<open>PIPE\<close> marker, or an open
  file.\<close>

datatype stream = SNone | SPipe | SHandle nat

text \<open>
  The state outside the descriptor. Directories are identified by device and inode
  (\<open>dir_of\<close>, the result of \<^verbatim>\<open>os.stat\<close>, \<open>None\<close> for a path that is not an existing
  directory); a file is an entry of a directory and has a content. \<open>killlist\<close> is the
  module's \<^verbatim>\<open>_PROCS\<close>: a weak reference is the pid of its \<^verbatim>\<open>Popen\<close> object, or \<open>None\<close>
  once that object has been collected. \<open>signals\<close> records the signals sent, \<open>exit_status\<close>
  the argument of \<^verbatim>\<open>sys.exit\<close>. \<open>spawn\<close> tells for a call and a working directory
  whether the child can be started, and how it will end; \<open>cmd_stdout\<close> is the \<^verbatim>\<open>stdout\<close>
  property of another descriptor.
\<close>

record world =
  dir_of :: "string \<Rightarrow> (nat \<times> nat) option"
  entries :: "(nat \<times> nat) \<times> string \<Rightarrow> string option"
  children :: "nat \<Rightarrow> child"
  next_pid :: nat
  next_handle :: nat
  open_handles :: "nat list"
  spawn :: "string list \<Rightarrow> string option \<Rightarrow> int option option"
  cmd_stdout :: "nat \<Rightarrow> stream"
  killlist :: "nat option list"
  handler_installed :: bool
  signals :: "(nat \<times> int) list"
  exit_status :: "int option"

definition SIGTERM :: int where
  "SIGTERM = 15"

text \<open>The directory entry that a path names.\<close>

definition locate :: "world \<Rightarrow> string \<Rightarrow> ((nat \<times> nat) \<times> string) option" where
  "locate w p =
     (case dir_of w (dirname p) of
        None \<Rightarrow> None
      | Some d \<Rightarrow> if basename p = [] then None else Some (d, basename p))"

text \<open>\<^verbatim>\<open>open(filename, mode)\<close> for the modes \<^verbatim>\<open>rb\<close> and \<^verbatim>\<open>wb\<close>: reading needs
  the file, writing creates or empties it.\<close>

definition open_file :: "world \<Rightarrow> string \<Rightarrow> string \<Rightarrow> error + nat \<times> world" where
  "open_file w filename mode =
     (case locate w filename of
        None \<Rightarrow> Inl IOError
      | Some loc \<Rightarrow>
          if CHR ''w'' \<in> set mode
          then Inr (next_handle w,
                    w\<lparr>entries := (entries w)(loc \<mapsto> []), next_handle := Suc (next_handle w),
                      open_handles := next_handle w # open_handles w\<rparr>)
          else if entries w loc = None then Inl IOError
          else Inr (next_handle w,
                    w\<lparr>next_handle := Suc (next_handle w),
                      open_handles := next_handle w # open_handles w\<rparr>))"

text \<open>\<^verbatim>\<open>os.path.samefile\<close> compares device and inode and fails when a path cannot be
  examined; \<^verbatim>\<open>os.listdir\<close> is represented by the membership test of its result.\<close>

definition samefile :: "world \<Rightarrow> string \<Rightarrow> string \<Rightarrow> error + bool" where
  "samefile w p q =
     (case (dir_of w p, dir_of w q) of
        (Some a, Some b) \<Rightarrow> Inr (a = b)
      | _ \<Rightarrow> Inl OSError)"

definition listdir :: "world \<Rightarrow> string \<Rightarrow> error + (string \<Rightarrow> bool)" where
  "listdir w p =
     (case dir_of w p of
        None \<Rightarrow> Inl OSError
      | Some d \<Rightarrow> Inr (\<lambda>name. entries w (d, name) \<noteq> None))"

text \<open>
  Modelled from the spec: \<^verbatim>\<open>fileutils.move_file\<close> and \<^verbatim>\<open>fileutils.try_remove\<close> of
  \<^verbatim>\<open>pypeline.common.fileutils\<close>, which is not among the sources. The spec has the move
  relocate the temporary file to the declared destination, an input/output error being
  a fatal failure, and the removal be best effort, a missing file being ignored.
\<close>

definition move_file :: "world \<Rightarrow> string \<Rightarrow> string \<Rightarrow> error + world" where
  "move_file w source destination =
     (case (locate w source, locate w destination) of
        (Some src, Some dst) \<Rightarrow>
          (case entries w src of
             None \<Rightarrow> Inl IOError
           | Some content \<Rightarrow>
               if src = dst then Inr w
               else Inr (w\<lparr>entries := (entries w)(dst \<mapsto> content, src := None)\<rparr>))
      | _ \<Rightarrow> Inl IOError)"

definition try_remove :: "world \<Rightarrow> string \<Rightarrow> world" where
  "try_remove w filename =
     (case locate w filename of
        None \<Rightarrow> w
      | Some loc \<Rightarrow> w\<lparr>entries := (entries w)(loc := None)\<rparr>)"

text \<open>
  \<^verbatim>\<open>os.kill\<close> and \<^verbatim>\<open>os.killpg\<close> on a child that leads its own process group
  (\<^verbatim>\<open>preexec_fn = os.setsid\<close>): the call fails when there is no such process, and a
  running child with the default disposition will terminate with the negated signal
  number as its status.
\<close>

definition kill :: "world \<Rightarrow> nat \<Rightarrow> int \<Rightarrow> error + world" where
  "kill w p sig =
     (case children w p of
        Gone \<Rightarrow> Inl OSError
      | Exited c \<Rightarrow> Inr (w\<lparr>signals := signals w @ [(p, sig)]\<rparr>)
      | Running f \<Rightarrow>
          Inr (w\<lparr>signals := signals w @ [(p, sig)],
                 children := (children w)(p := Running (Some (- sig)))\<rparr>))"

text \<open>\<^verbatim>\<open>Popen.poll\<close>: the status is collected once; a child that cannot be waited for
  leaves \<^verbatim>\<open>returncode\<close> unset.\<close>

definition poll :: "popen \<Rightarrow> world \<Rightarrow> int option \<times> popen \<times> world" where
  "poll p w =
     (case returncode p of
        Some c \<Rightarrow> (Some c, p, w)
      | None \<Rightarrow>
          (case children w (pid p) of
             Exited c \<Rightarrow> (Some c, p\<lparr>returncode := Some c\<rparr>, w\<lparr>children := (children w)(pid p := Gone)\<rparr>)
           | _ \<Rightarrow> (None, p, w)))"

text \<open>\<^verbatim>\<open>Popen.wait\<close>: blocks until the child has terminated, the result \<open>None\<close> standing
  for a call that never returns; a child that cannot be waited for counts as status 0.\<close>

definition popen_wait :: "popen \<Rightarrow> world \<Rightarrow> (int \<times> popen \<times> world) option" where
  "popen_wait p w =
     (case returncode p of
        Some c \<Rightarrow> Some (c, p, w)
      | None \<Rightarrow>
          (case children w (pid p) of
             Exited c \<Rightarrow> Some (c, p\<lparr>returncode := Some c\<rparr>, w\<lparr>children := (children w)(pid p := Gone)\<rparr>)
           | Running (Some c) \<Rightarrow>
               Some (c, p\<lparr>returncode := Some c\<rparr>, w\<lparr>children := (children w)(pid p := Gone)\<rparr>)
           | Running None \<Rightarrow> None
           | Gone \<Rightarrow> Some (0, p\<lparr>returncode := Some 0\<rparr>, w)))"

text \<open>Dropping the last reference to a \<^verbatim>\<open>Popen\<close> object: the callback of its weak
  reference removes it from the killlist.\<close>

definition release :: "world \<Rightarrow> popen option \<Rightarrow> world" where
  "release w p =
     (case p of
        None \<Rightarrow> w
      | Some q \<Rightarrow> w\<lparr>killlist := filter (\<lambda>r. r \<noteq> Some (pid q)) (killlist w)\<rparr>)"

section \<open>The killlist and its signal handler\<close>

fun kill_groups :: "nat option list \<Rightarrow> world \<Rightarrow> (error + unit) \<times> world" where
  "kill_groups [] w = (Inr (), w)"
| "kill_groups (proc_ref # refs) w =
     (case proc_ref of
        None \<Rightarrow> kill_groups refs w
      | Some p \<Rightarrow>
          (case kill w p SIGTERM of
             Inl err \<Rightarrow> (Inl err, w)
           | Inr w' \<Rightarrow> kill_groups refs w'))"

text \<open>\<^verbatim>\<open>_cleanup_children\<close>: the result is the exception that leaves the handler, if any,
  and the world; \<^verbatim>\<open>sys.exit\<close> is reached only after the loop.\<close>

definition cleanup_children :: "int \<Rightarrow> world \<Rightarrow> (error + unit) \<times> world" where
  "cleanup_children signum w =
     (case kill_groups (killlist w) w of
        (Inl err, w') \<Rightarrow> (Inl err, w')
      | (Inr _, w') \<Rightarrow> (Inr (), w'\<lparr>exit_status := Some (- signum)\<rparr>))"

definition add_to_killlist :: "popen \<Rightarrow> world \<Rightarrow> world" where
  "add_to_killlist p w =
     (let w' = (if killlist w = [] then w\<lparr>handler_installed := True\<rparr> else w)
      in w'\<lparr>killlist := killlist w' @ [Some (pid p)]\<rparr>)"

section \<open>Running, joining and committing\<close>

text \<open>\<^verbatim>\<open>_open_pipe\<close>: the value of the pipe's slot, or of its \<^verbatim>\<open>TEMP_\<close> twin, decides
  what the child gets; a file that is opened is recorded in \<open>handles\<close>.\<close>

definition open_pipe ::
  "atomic_cmd \<Rightarrow> (string, pyval) dict \<Rightarrow> string \<Rightarrow> string \<Rightarrow> world
     \<Rightarrow> (error + stream) \<times> atomic_cmd \<times> world" where
  "open_pipe c kwords pipe mode w =
     (case (case dict_get kwords pipe of Some v \<Rightarrow> v | None \<Rightarrow> kw_get kwords (''TEMP_'' @ pipe)) of
        PNone \<Rightarrow> (Inr SNone, c, w)
      | PInt i \<Rightarrow> if PInt i = PIPE then (Inr SPipe, c, w) else (Inl (TypeError []), c, w)
      | PCmd other \<Rightarrow> (Inr (cmd_stdout w other), c, w)
      | PCallable _ \<Rightarrow> (Inl (TypeError []), c, w)
      | PStr filename \<Rightarrow>
          (case open_file w filename mode of
             Inl err \<Rightarrow> (Inl err, c, w)
           | Inr (h, w') \<Rightarrow>
               (Inr (SHandle h), c\<lparr>handles := dict_set (handles c) pipe (mode, h)\<rparr>, w')))"

text \<open>\<^verbatim>\<open>subprocess.Popen\<close> with \<^verbatim>\<open>preexec_fn = os.setsid\<close>: the child gets a new pid and
  leads its own process group.\<close>

definition popen_start ::
  "string list \<Rightarrow> stream \<Rightarrow> string option \<Rightarrow> world \<Rightarrow> error + popen \<times> world" where
  "popen_start call out cwd w =
     (case spawn w call cwd of
        None \<Rightarrow> Inl OSError
      | Some f \<Rightarrow>
          Inr (\<lparr>pid = next_pid w, returncode = None,
                popen_stdout = (if out = SPipe then Some (next_handle w) else None)\<rparr>,
               w\<lparr>children := (children w)(next_pid w := Running f),
                 next_pid := Suc (next_pid w),
                 next_handle := (if out = SPipe then Suc (next_handle w) else next_handle w)\<rparr>))"

definition run :: "env \<Rightarrow> atomic_cmd \<Rightarrow> string \<Rightarrow> world \<Rightarrow> (error + unit) \<times> atomic_cmd \<times> world" where
  "run e c tmp w =
     (if handles c \<noteq> [] then (Inl (CmdError ''Calling 'run' on already running command.''), c, w)
      else
        let c1 = c\<lparr>temp := Some tmp\<rparr>;
            kwords = generate_filenames (env_abspath e) (files c1) tmp
        in case open_pipe c1 kwords ''IN_STDIN'' ''rb'' w of
             (Inl err, c2, w2) \<Rightarrow> (Inl err, c2, w2)
           | (Inr stdin, c2, w2) \<Rightarrow>
        (case open_pipe c2 kwords ''OUT_STDOUT'' ''wb'' w2 of
             (Inl err, c3, w3) \<Rightarrow> (Inl err, c3, w3)
           | (Inr stdout, c3, w3) \<Rightarrow>
        (case open_pipe c3 kwords ''OUT_STDERR'' ''wb'' w3 of
             (Inl err, c4, w4) \<Rightarrow> (Inl err, c4, w4)
           | (Inr stderr, c4, w4) \<Rightarrow>
        (let cwd = (if set_cwd c4 then Some tmp else None);
             tmp' = (if set_cwd c4 then [] else env_abspath e tmp)
         in case generate_call e (command c4) (files c4) tmp' of
              Inl err \<Rightarrow> (Inl err, c4, w4)
            | Inr call \<Rightarrow>
                (case popen_start call stdout cwd w4 of
                   Inl err \<Rightarrow> (Inl err, c4, w4)
                 | Inr (p, w5) \<Rightarrow> (Inr (), c4\<lparr>proc := Some p\<rparr>, add_to_killlist p w5))))))"

text \<open>\<^verbatim>\<open>ready\<close> polls the child, which may collect its status.\<close>

definition ready :: "atomic_cmd \<Rightarrow> world \<Rightarrow> bool \<times> atomic_cmd \<times> world" where
  "ready c w =
     (case proc c of
        None \<Rightarrow> (False, c, w)
      | Some p \<Rightarrow>
          (case poll p w of (rc, p', w') \<Rightarrow> (rc \<noteq> None, c\<lparr>proc := Some p'\<rparr>, w')))"

text \<open>Closing the handles of \<open>handles\<close> (flushing and closing are taken to succeed).\<close>

definition close_handles :: "(string, string \<times> nat) dict \<Rightarrow> world \<Rightarrow> world" where
  "close_handles hs w =
     w\<lparr>open_handles := filter (\<lambda>h. h \<notin> set (map (\<lambda>(pipe, mode, handle). handle) hs)) (open_handles w)\<rparr>"

text \<open>\<^verbatim>\<open>join\<close>: the result \<open>None\<close> stands for a call that blocks forever in
  \<^verbatim>\<open>Popen.wait\<close>.\<close>

definition join :: "atomic_cmd \<Rightarrow> world \<Rightarrow> (int option list \<times> atomic_cmd \<times> world) option" where
  "join c w =
     (case proc c of
        None \<Rightarrow> Some ([None], c\<lparr>handles := []\<rparr>, close_handles (handles c) w)
      | Some p \<Rightarrow>
          (case popen_wait p w of
             None \<Rightarrow> None
           | Some (rc, p', w') \<Rightarrow>
               Some ([Some rc], c\<lparr>proc := Some p', handles := []\<rparr>, close_handles (handles c) w')))"

definition wait :: "atomic_cmd \<Rightarrow> world \<Rightarrow> (int option \<times> atomic_cmd \<times> world) option" where
  "wait c w =
     (case join c w of
        None \<Rightarrow> None
      | Some (codes, c', w') \<Rightarrow> Some (hd codes, c', w'))"

definition terminate :: "atomic_cmd \<Rightarrow> world \<Rightarrow> atomic_cmd \<times> world" where
  "terminate c w =
     (case proc c of
        None \<Rightarrow> (c, w)
      | Some p \<Rightarrow>
          (case poll p w of
             (Some rc, p', w') \<Rightarrow> (c\<lparr>proc := Some p'\<rparr>, w')
           | (None, p', w') \<Rightarrow>
               (case kill w' (pid p') SIGTERM of
                  Inl err \<Rightarrow> (c\<lparr>proc := Some p'\<rparr>, w')
                | Inr w'' \<Rightarrow> (c\<lparr>proc := None\<rparr>, release w'' (Some p')))))"

text \<open>The loop of \<^verbatim>\<open>commit\<close> over the resolved filenames.\<close>

fun commit_files :: "(string, pyval) dict \<Rightarrow> (string, pyval) dict \<Rightarrow> world \<Rightarrow> (error + unit) \<times> world" where
  "commit_files fls [] w = (Inr (), w)"
| "commit_files fls ((key, val) # rest) w =
     (case val of
        PStr filename \<Rightarrow>
          if startswith key ''OUT_''
          then (case dict_get fls key of
                  Some (PStr destination) \<Rightarrow>
                    (case move_file w filename destination of
                       Inl err \<Rightarrow> (Inl err, w)
                     | Inr w' \<Rightarrow> commit_files fls rest w')
                | Some _ \<Rightarrow> (Inl (TypeError []), w)
                | None \<Rightarrow> (Inl (KeyError key), w))
          else if startswith key ''TEMP_OUT_''
          then commit_files fls rest (try_remove w filename)
          else commit_files fls rest w
      | _ \<Rightarrow> commit_files fls rest w)"

definition mismatch_message :: "env \<Rightarrow> string \<Rightarrow> string \<Rightarrow> string" where
  "mismatch_message e old new =
     ''Mismatch between previous and current temp folders: '' @ env_repr e (PStr old)
     @ '' != '' @ new"

definition commit :: "env \<Rightarrow> atomic_cmd \<Rightarrow> string \<Rightarrow> world \<Rightarrow> (error + unit) \<times> atomic_cmd \<times> world" where
  "commit e c tmp w =
     (case ready c w of (rdy, c1, w1) \<Rightarrow>
        (if \<not> rdy
         then (Inl (CmdError ''Attempting to commit command before it has completed''), c1, w1)
         else if handles c1 \<noteq> []
         then (Inl (CmdError (''Called 'commit' before calling '' @ [CHR 0x27] @ ''join'' @ [CHR 0x27])),
               c1, w1)
         else (case temp c1 of
                 None \<Rightarrow> (Inl (TypeError []), c1, w1)
               | Some old \<Rightarrow>
                   (case samefile w1 old tmp of
                      Inl err \<Rightarrow> (Inl err, c1, w1)
                    | Inr same \<Rightarrow>
                        (if \<not> same then (Inl (CmdError (mismatch_message e old tmp)), c1, w1)
                         else (case listdir w1 tmp of
                                 Inl err \<Rightarrow> (Inl err, c1, w1)
                               | Inr present \<Rightarrow>
                                   (let missing_files =
                                          filter (\<lambda>name. \<not> present name) (fs_output_fname (file_sets c1))
                                    in (if missing_files \<noteq> []
                                        then (Inl (CmdError (''Expected files not created: ''
                                                             @ str_join '', '' missing_files)), c1, w1)
                                        else (case commit_files (files c1)
                                                     (generate_filenames (env_abspath e) (files c1)
                                                        (env_abspath e tmp)) w1 of
                                                (Inl err, w2) \<Rightarrow> (Inl err, c1, w2)
                                              | (Inr u, w2) \<Rightarrow>
                                                  (Inr (), c1\<lparr>proc := None, temp := None\<rparr>,
                                                   release w2 (proc c1)))))))))))"

text \<open>The \<^verbatim>\<open>stdout\<close> property.\<close>

definition stdout :: "atomic_cmd \<Rightarrow> nat option" where
  "stdout c =
     (let out = (case dict_get (files c) ''OUT_STDOUT'' of
                   Some v \<Rightarrow> v
                 | None \<Rightarrow> kw_get (files c) ''TEMP_OUT_STDOUT'')
      in case proc c of
           None \<Rightarrow> None
         | Some p \<Rightarrow> if out = PIPE then popen_stdout p else None)"

section \<open>The zonkey sample validator\<close>

text \<open>
  \<^verbatim>\<open>_process_samples\<close> of the zonkey configuration. \<^verbatim>\<open>config.database.validate_bam\<close>
  belongs to the database module and is the parameter \<open>validate_bam\<close>, whose result
  \<open>None\<close> is a false value; \<open>repr\<close> is the \<^verbatim>\<open>%r\<close> of a name. What is written to
  \<^verbatim>\<open>sys.stderr\<close> is collected in a list.
\<close>

record filetype =
  is_nuclear :: bool
  is_mitochondrial :: bool

text \<open>The \<^verbatim>\<open>"Files"\<close> entry of a sample: the list given by the user, the dictionary of
  identified files, or nothing after \<^verbatim>\<open>info.pop("Files")\<close>.\<close>

datatype files_entry = Given "string list" | Identified "(string, string) dict" | Popped

definition NL :: string where
  "NL = [CHR 0x0A]"

definition setdefault :: "('k, 'v) dict \<Rightarrow> 'k \<Rightarrow> 'v \<Rightarrow> ('k, 'v) dict" where
  "setdefault d k v = (if dict_get d k = None then dict_set d k v else d)"

fun process_files ::
  "(string \<Rightarrow> filetype option) \<Rightarrow> (string \<Rightarrow> string) \<Rightarrow> string list \<Rightarrow> (string, string) dict
     \<Rightarrow> string list \<Rightarrow> bool \<times> (string, string) dict \<times> string list" where
  "process_files validate_bam repr [] fls err = (True, fls, err)"
| "process_files validate_bam repr (filename # rest) fls err =
     (case validate_bam filename of
        None \<Rightarrow> (False, fls, err @ [''ERROR: File is not a valid BAM file: '' @ repr filename @ NL])
      | Some ft \<Rightarrow>
          if is_nuclear ft \<and> is_mitochondrial ft
          then (if dict_get fls ''Nuc'' \<noteq> None then (False, fls, err @ [''ERROR: Two nuclear BAMs specified!'' @ NL])
                else process_files validate_bam repr rest
                       (setdefault (dict_set fls ''Nuc'' filename) ''Mito'' filename)
                       (if dict_get fls ''Mito'' \<noteq> None
                        then err @ [''WARNING: Nuclear + mitochondrial BAM, ''
                                    @ ''and mitochondrial BAM specified; the ''
                                    @ ''mitochondrial genome in the first BAM ''
                                    @ ''will not be used!'' @ NL]
                        else err))
          else if is_nuclear ft
          then (if dict_get fls ''Nuc'' \<noteq> None then (False, fls, err @ [''ERROR: Two nuclear BAMs specified!'' @ NL])
                else process_files validate_bam repr rest (dict_set fls ''Nuc'' filename) err)
          else if is_mitochondrial ft
          then (if dict_get fls ''Mito'' \<noteq> None
                then (False, fls, err @ [''ERROR: Two nuclear BAMs specified!'' @ NL])
                else process_files validate_bam repr rest (dict_set fls ''Mito'' filename) err)
          else (False, fls,
                err @ [''ERROR: BAM does not contain known nuclear ''
                       @ ''or mitochondrial contigs: '' @ repr filename @ NL]))"

text \<open>The outer loop over the sorted samples; a sample is its \<^verbatim>\<open>"Root"\<close> and its
  \<^verbatim>\<open>"Files"\<close>.\<close>

definition validating :: "(string \<Rightarrow> string) \<Rightarrow> string \<Rightarrow> string" where
  "validating repr name =
     (if name = ''-'' then ''Validating unnamed sample ...'' @ NL
      else ''Validating sample '' @ repr name @ '' ...'' @ NL)"

definition given_files :: "files_entry \<Rightarrow> string list" where
  "given_files fe = (case fe of Given xs \<Rightarrow> xs | _ \<Rightarrow> [])"

fun process_sorted ::
  "(string \<Rightarrow> filetype option) \<Rightarrow> (string \<Rightarrow> string) \<Rightarrow> (string \<times> string \<times> files_entry) list
     \<Rightarrow> (string, string \<times> files_entry) dict \<Rightarrow> string list
     \<Rightarrow> bool \<times> (string, string \<times> files_entry) dict \<times> string list" where
  "process_sorted validate_bam repr [] samples err = (True, samples, err)"
| "process_sorted validate_bam repr ((name, root, fe) # rest) samples err =
     (let err1 = err @ [validating repr name]
      in case process_files validate_bam repr (given_files fe) [] err1 of
           (False, fls, err2) \<Rightarrow> (False, dict_set samples name (root, Popped), err2)
         | (True, fls, err2) \<Rightarrow>
             process_sorted validate_bam repr rest
               (dict_set samples name (root, Identified fls)) err2)"

definition process_samples ::
  "(string \<Rightarrow> filetype option) \<Rightarrow> (string \<Rightarrow> string) \<Rightarrow> (string, string \<times> files_entry) dict
     \<Rightarrow> bool \<times> (string, string \<times> files_entry) dict \<times> string list" where
  "process_samples validate_bam repr samples =
     process_sorted validate_bam repr (sort_key fst samples) samples []"

section \<open>Concrete environments for the examples\<close>

text \<open>
  An environment in which paths are absolute and normalised (so that
  \<^verbatim>\<open>os.path.abspath\<close> returns its argument), command templates have no placeholders
  (so that \<^verbatim>\<open>%\<close> returns the template), and \<^verbatim>\<open>repr\<close> only has to quote.
\<close>

definition example_env :: env where
  "example_env =
     \<lparr>env_repr = (\<lambda>v. case v of PStr s \<Rightarrow> [CHR 0x27] @ s @ [CHR 0x27] | _ \<Rightarrow> ''<object>''),
      env_abspath = (\<lambda>p. p),
      env_format = (\<lambda>field kwords. Inr field)\<rparr>"

text \<open>A BAM database that knows one nuclear and two mitochondrial alignments.\<close>

definition example_validate_bam :: "string \<Rightarrow> filetype option" where
  "example_validate_bam f =
     (if f = ''nuc.bam'' then Some \<lparr>is_nuclear = True, is_mitochondrial = False\<rparr>
      else if f = ''mt1.bam'' \<or> f = ''mt2.bam''
      then Some \<lparr>is_nuclear = False, is_mitochondrial = True\<rparr>
      else None)"

text \<open>
  A world with the temp root \<^verbatim>\<open>/tmp/run\<close> and the destination directory \<^verbatim>\<open>/dest\<close>, no
  files, no children, and in which every command can be started and ends with status 0
  when left alone.
\<close>

definition example_world :: world where
  "example_world =
     \<lparr>dir_of = (\<lambda>p. if p = ''/tmp/run'' then Some (0, 1)
                     else if p = ''/dest'' then Some (0, 2) else None),
      entries = (\<lambda>loc. None),
      children = (\<lambda>p. Gone),
      next_pid = 100,
      next_handle = 3,
      open_handles = [],
      spawn = (\<lambda>call cwd. Some (Some 0)),
      cmd_stdout = (\<lambda>c. SNone),
      killlist = [],
      handler_installed = False,
      signals = [],
      exit_status = None\<rparr>"

section \<open>Properties\<close>

subsection \<open>Dictionaries and prefixes\<close>

lemma str_int_7: "str_int 7 = ''7''"
  by (simp add: str_int_def str_nat.simps digit_char_def)

lemma startswith_iff: "startswith s p \<longleftrightarrow> (\<exists>t. s = p @ t)"
  unfolding startswith_def
  by (metis append_eq_conv_conj append_take_drop_id)

lemma map_of_dict_set: "map_of (dict_set d k v) = (map_of d)(k \<mapsto> v)"
  by (induction d) (auto simp: fun_eq_iff)

lemma dict_get_dict_set: "dict_get (dict_set d k v) k' = (if k' = k then Some v else dict_get d k')"
  by (simp add: dict_get_def map_of_dict_set)

lemma keys_dict_set: "fst ` set (dict_set d k v) = insert k (fst ` set d)"
  by (induction d) force+

lemma distinct_dict_set: "distinct (map fst d) \<Longrightarrow> distinct (map fst (dict_set d k v))"
proof (induction d)
  case Nil
  then show ?case by simp
next
  case (Cons a d)
  have "fst ` set (dict_set d k v) = insert k (fst ` set d)" by (rule keys_dict_set)
  with Cons show ?case by (cases a) auto
qed

lemma dict_get_fill_filenames:
  "distinct (map fst fls) \<Longrightarrow>
   dict_get (fill_filenames a r fls acc) k =
     (case map_of fls k of Some v \<Rightarrow> Some (resolve a r k v) | None \<Rightarrow> dict_get acc k)"
proof (induction fls arbitrary: acc)
  case Nil
  then show ?case by simp
next
  case (Cons kv fls)
  obtain key val where kv: "kv = (key, val)" by (cases kv)
  from Cons.prems have d: "distinct (map fst fls)" and n: "map_of fls key = None"
    by (auto simp: kv map_of_eq_None_iff)
  show ?case
    using n by (simp add: kv Cons.IH [OF d] dict_get_dict_set split: option.splits)
qed

lemma dict_get_generate_filenames:
  assumes "distinct (map fst fls)"
  shows "dict_get (generate_filenames a fls r) k =
     (case map_of fls k of Some v \<Rightarrow> Some (resolve a r k v)
      | None \<Rightarrow> if k = ''TEMP_DIR'' then Some (PStr r) else None)"
  using assms
  by (simp add: generate_filenames_def dict_get_fill_filenames)
     (auto simp: dict_get_def split: option.splits)

lemma temp_dir_no_prefix: "\<not> list_ex (startswith ''TEMP_DIR'') PREFIXES"
  by (simp add: PREFIXES_def startswith_def)

text \<open>
  Claim C6. For a slot map (a dictionary whose keys all begin with one of the seven legal
  prefixes) and a temp root \<open>R\<close>, the filename resolver maps \<^verbatim>\<open>TEMP_DIR\<close> to \<open>R\<close>; a slot
  with a \<^verbatim>\<open>TEMP_\<close> or \<^verbatim>\<open>OUT_\<close> prefix and a string value to \<open>R\<close> joined with the basename
  of the value; a slot with an \<^verbatim>\<open>IN_\<close> or \<^verbatim>\<open>AUX_\<close> prefix and a string value to the
  absolute path of the value when \<open>R\<close> is empty and to the value itself otherwise; every
  other slot to its value; and it has no other keys.
\<close>

theorem generate_filenames_resolves:
  assumes "distinct (map fst fls)"
    and "\<forall>k \<in> fst ` set fls. list_ex (startswith k) PREFIXES"
  shows "dict_get (generate_filenames a fls R) ''TEMP_DIR'' = Some (PStr R)
    \<and> (\<forall>k p. (k, PStr p) \<in> set fls \<and> (startswith k ''TEMP_'' \<or> startswith k ''OUT_'')
          \<longrightarrow> dict_get (generate_filenames a fls R) k = Some (PStr (path_join R (basename p))))
    \<and> (\<forall>k p. (k, PStr p) \<in> set fls \<and> (startswith k ''IN_'' \<or> startswith k ''AUX_'')
          \<longrightarrow> dict_get (generate_filenames a fls R) k = Some (PStr (if R = [] then a p else p)))
    \<and> (\<forall>k v. (k, v) \<in> set fls
              \<and> (\<not> is_string v \<or> \<not> (startswith k ''TEMP_'' \<or> startswith k ''OUT_''
                                      \<or> startswith k ''IN_'' \<or> startswith k ''AUX_''))
          \<longrightarrow> dict_get (generate_filenames a fls R) k = Some v)
    \<and> (\<forall>k. dict_get (generate_filenames a fls R) k \<noteq> None
          \<longleftrightarrow> k = ''TEMP_DIR'' \<or> k \<in> fst ` set fls)"
proof -
  have nokey: "''TEMP_DIR'' \<notin> fst ` set fls"
    using assms(2) temp_dir_no_prefix by blast
  then have none: "map_of fls ''TEMP_DIR'' = None"
    by (simp add: map_of_eq_None_iff)
  have look: "map_of fls k = Some v" if "(k, v) \<in> set fls" for k v
    using that assms(1) by simp
  have c1: "dict_get (generate_filenames a fls R) ''TEMP_DIR'' = Some (PStr R)"
    by (simp add: dict_get_generate_filenames [OF assms(1)] none)
  have c2: "dict_get (generate_filenames a fls R) k = Some (PStr (path_join R (basename p)))"
    if "(k, PStr p) \<in> set fls" "startswith k ''TEMP_'' \<or> startswith k ''OUT_''" for k p
    using that by (simp add: dict_get_generate_filenames [OF assms(1)] look resolve_def)
  have c3: "dict_get (generate_filenames a fls R) k = Some (PStr (if R = [] then a p else p))"
    if "(k, PStr p) \<in> set fls" "startswith k ''IN_'' \<or> startswith k ''AUX_''" for k p
  proof -
    have "\<not> startswith k ''TEMP_''" "\<not> startswith k ''OUT_''"
      using that(2) by (auto simp: startswith_iff)
    then show ?thesis
      using that by (simp add: dict_get_generate_filenames [OF assms(1)] look resolve_def)
  qed
  have c4: "dict_get (generate_filenames a fls R) k = Some v"
    if "(k, v) \<in> set fls"
       "\<not> is_string v \<or> \<not> (startswith k ''TEMP_'' \<or> startswith k ''OUT_''
                               \<or> startswith k ''IN_'' \<or> startswith k ''AUX_'')" for k v
    using that
    by (cases v) (auto simp: dict_get_generate_filenames [OF assms(1)] look resolve_def)
  have c5: "dict_get (generate_filenames a fls R) k \<noteq> None
          \<longleftrightarrow> k = ''TEMP_DIR'' \<or> k \<in> fst ` set fls" for k
  proof -
    have "k \<in> fst ` set fls \<longleftrightarrow> map_of fls k \<noteq> None"
      by (simp add: map_of_eq_None_iff)
    then show ?thesis
      by (auto simp: dict_get_generate_filenames [OF assms(1)] split: option.splits)
  qed
  from c1 c2 c3 c4 c5 show ?thesis by blast
qed

theorem generate_filenames_resolves_witness:
  "distinct (map fst [(''IN_DATA'', PStr ''in/data.txt''), (''OUT_RESULT'', PStr ''/dest/out.txt''),
                      (''CHECK_VERSION'', PCallable 0)])
   \<and> list_all (\<lambda>k. list_ex (startswith k) PREFIXES)
         (map fst [(''IN_DATA'', PStr ''in/data.txt''), (''OUT_RESULT'', PStr ''/dest/out.txt''),
                   (''CHECK_VERSION'', PCallable 0)])
   \<and> dict_get (generate_filenames (\<lambda>p. ''/cwd/'' @ p)
                 [(''IN_DATA'', PStr ''in/data.txt''), (''OUT_RESULT'', PStr ''/dest/out.txt''),
                  (''CHECK_VERSION'', PCallable 0)] ''/tmp/run'') ''TEMP_DIR'' = Some (PStr ''/tmp/run'')
   \<and> dict_get (generate_filenames (\<lambda>p. ''/cwd/'' @ p)
                 [(''IN_DATA'', PStr ''in/data.txt''), (''OUT_RESULT'', PStr ''/dest/out.txt''),
                  (''CHECK_VERSION'', PCallable 0)] ''/tmp/run'') ''OUT_RESULT''
         = Some (PStr ''/tmp/run/out.txt'')
   \<and> dict_get (generate_filenames (\<lambda>p. ''/cwd/'' @ p)
                 [(''IN_DATA'', PStr ''in/data.txt''), (''OUT_RESULT'', PStr ''/dest/out.txt''),
                  (''CHECK_VERSION'', PCallable 0)] ''/tmp/run'') ''IN_DATA''
         = Some (PStr ''in/data.txt'')
   \<and> dict_get (generate_filenames (\<lambda>p. ''/cwd/'' @ p)
                 [(''IN_DATA'', PStr ''in/data.txt''), (''OUT_RESULT'', PStr ''/dest/out.txt''),
                  (''CHECK_VERSION'', PCallable 0)] []) ''IN_DATA''
         = Some (PStr ''/cwd/in/data.txt'')
   \<and> dict_get (generate_filenames (\<lambda>p. ''/cwd/'' @ p)
                 [(''IN_DATA'', PStr ''in/data.txt''), (''OUT_RESULT'', PStr ''/dest/out.txt''),
                  (''CHECK_VERSION'', PCallable 0)] ''/tmp/run'') ''CHECK_VERSION''
         = Some (PCallable 0)"
proof -
  let ?F = "[(''IN_DATA'', PStr ''in/data.txt''), (''OUT_RESULT'', PStr ''/dest/out.txt''),
             (''CHECK_VERSION'', PCallable 0)]"
  let ?a = "\<lambda>p. ''/cwd/'' @ p"
  have h1: "distinct (map fst ?F)" by simp
  have h2: "\<forall>k \<in> fst ` set ?F. list_ex (startswith k) PREFIXES"
    by (simp add: PREFIXES_def startswith_def)
  note T = generate_filenames_resolves [OF h1 h2, of ?a "''/tmp/run''"]
  note U = generate_filenames_resolves [OF h1 h2, of ?a "[]"]
  have m1: "(''OUT_RESULT'', PStr ''/dest/out.txt'') \<in> set ?F \<and>
            (startswith ''OUT_RESULT'' ''TEMP_'' \<or> startswith ''OUT_RESULT'' ''OUT_'')"
    by (simp add: startswith_def)
  have m2: "(''IN_DATA'', PStr ''in/data.txt'') \<in> set ?F \<and>
            (startswith ''IN_DATA'' ''IN_'' \<or> startswith ''IN_DATA'' ''AUX_'')"
    by (simp add: startswith_def)
  have m3: "(''CHECK_VERSION'', PCallable 0) \<in> set ?F \<and>
            (\<not> is_string (PCallable 0) \<or> \<not> (startswith ''CHECK_VERSION'' ''TEMP_''
               \<or> startswith ''CHECK_VERSION'' ''OUT_'' \<or> startswith ''CHECK_VERSION'' ''IN_''
               \<or> startswith ''CHECK_VERSION'' ''AUX_''))"
    by simp
  have c1: "dict_get (generate_filenames ?a ?F ''/tmp/run'') ''TEMP_DIR'' = Some (PStr ''/tmp/run'')"
    by (rule T [THEN conjunct1])
  have "dict_get (generate_filenames ?a ?F ''/tmp/run'') ''OUT_RESULT''
                   = Some (PStr (path_join ''/tmp/run'' (basename ''/dest/out.txt'')))"
    by (rule T [THEN conjunct2, THEN conjunct1, rule_format, OF m1])
  then have c2: "dict_get (generate_filenames ?a ?F ''/tmp/run'') ''OUT_RESULT''
                   = Some (PStr ''/tmp/run/out.txt'')"
    by (simp add: path_join_def basename_def startswith_def)
  have "dict_get (generate_filenames ?a ?F ''/tmp/run'') ''IN_DATA''
                   = Some (PStr (if ''/tmp/run'' = [] then ?a ''in/data.txt'' else ''in/data.txt''))"
    by (rule T [THEN conjunct2, THEN conjunct2, THEN conjunct1, rule_format, OF m2])
  then have c3: "dict_get (generate_filenames ?a ?F ''/tmp/run'') ''IN_DATA'' = Some (PStr ''in/data.txt'')"
    by simp
  have "dict_get (generate_filenames ?a ?F []) ''IN_DATA''
                   = Some (PStr (if ([]::string) = [] then ?a ''in/data.txt'' else ''in/data.txt''))"
    by (rule U [THEN conjunct2, THEN conjunct2, THEN conjunct1, rule_format, OF m2])
  then have c4: "dict_get (generate_filenames ?a ?F []) ''IN_DATA'' = Some (PStr ''/cwd/in/data.txt'')"
    by simp
  have c5: "dict_get (generate_filenames ?a ?F ''/tmp/run'') ''CHECK_VERSION'' = Some (PCallable 0)"
    by (rule T [THEN conjunct2, THEN conjunct2, THEN conjunct2, THEN conjunct1, rule_format, OF m3])
  have h2': "list_all (\<lambda>k. list_ex (startswith k) PREFIXES) (map fst ?F)"
    by (simp add: PREFIXES_def startswith_def)
  show ?thesis
    by (intro conjI h1 h2' c1 c2 c3 c4 c5)
qed

lemma init_Inr:
  assumes "init e pd cmd cwd kw = Inr c"
  shows "cmd \<noteq> []" "hd cmd \<noteq> []" "process_arguments (env_repr e) pd cmd kw = Inr (files c)"
  using assms by (auto simp: init_def split: if_splits sum.splits)

lemma process_arguments_Inr:
  assumes "process_arguments r pd cmd kw = Inr fl"
  shows "\<exists>f0. collect_files r kw [] = Inr f0
            \<and> fl = fill_pipes (basename (hd cmd)) pd kw [''STDOUT'', ''STDERR''] f0"
    and "check_outputs (collect_outputs kw []) = Inr ()"
    and "validate_pipes kw = Inr ()"
  using assms by (auto simp: process_arguments_def Let_def split: sum.splits list.splits)

lemma fill_pipes_stdout:
  assumes "kw_get kw ''OUT_STDOUT'' = PNone" "kw_get kw ''TEMP_OUT_STDOUT'' = PNone"
  shows "dict_get (fill_pipes x pd kw [''STDOUT'', ''STDERR''] f0) ''TEMP_OUT_STDOUT''
           = Some (PStr (pipe_filename x pd ''STDOUT''))"
  using assms by (simp add: dict_get_dict_set)

lemma fill_pipes_stderr:
  assumes "kw_get kw ''OUT_STDERR'' = PNone" "kw_get kw ''TEMP_OUT_STDERR'' = PNone"
  shows "dict_get (fill_pipes x pd kw [''STDOUT'', ''STDERR''] f0) ''TEMP_OUT_STDERR''
           = Some (PStr (pipe_filename x pd ''STDERR''))"
  using assms by (simp add: dict_get_dict_set)

lemma lower_STDOUT: "lower ''STDOUT'' = ''stdout''"
  by (simp add: lower_def lower_char_def)

lemma lower_STDERR: "lower ''STDERR'' = ''stderr''"
  by (simp add: lower_def lower_char_def)

text \<open>
  Claim C7. In every constructed descriptor, a standard output stream (\<^verbatim>\<open>STDOUT\<close>,
  \<^verbatim>\<open>STDERR\<close>) for which neither the \<^verbatim>\<open>OUT_\<close> nor the \<^verbatim>\<open>TEMP_OUT_\<close> slot is supplied gets
  the slot \<^verbatim>\<open>TEMP_OUT_<stream>\<close> with the filename
  \<^verbatim>\<open>pipe_<basename of argv[0]>_<descriptor id>.<stream in lower case>\<close>.
\<close>

theorem missing_streams_are_filled:
  assumes "init e proc_id cmd cwd kwargs = Inr c"
  shows "(kw_get kwargs ''OUT_STDOUT'' = PNone \<and> kw_get kwargs ''TEMP_OUT_STDOUT'' = PNone
            \<longrightarrow> dict_get (files c) ''TEMP_OUT_STDOUT''
                  = Some (PStr (''pipe_'' @ basename (hd cmd) @ ''_'' @ str_int proc_id @ ''.stdout'')))
       \<and> (kw_get kwargs ''OUT_STDERR'' = PNone \<and> kw_get kwargs ''TEMP_OUT_STDERR'' = PNone
            \<longrightarrow> dict_get (files c) ''TEMP_OUT_STDERR''
                  = Some (PStr (''pipe_'' @ basename (hd cmd) @ ''_'' @ str_int proc_id @ ''.stderr'')))"
proof -
  from init_Inr(3) [OF assms] process_arguments_Inr(1)
  obtain f0 where fl: "files c = fill_pipes (basename (hd cmd)) proc_id kwargs [''STDOUT'', ''STDERR''] f0"
    by blast
  show ?thesis
    unfolding fl
    using fill_pipes_stdout [of kwargs "basename (hd cmd)" proc_id f0]
          fill_pipes_stderr [of kwargs "basename (hd cmd)" proc_id f0]
    by (simp add: pipe_filename_def lower_STDOUT lower_STDERR)
qed

theorem missing_streams_are_filled_witness:
  "init example_env 7 [''/bin/ls''] False [(''OUT_STDOUT'', PIPE)]
     = Inr \<lparr>proc = None, temp = None, command = [''/bin/ls''], handles = [], set_cwd = False,
            files = [(''OUT_STDOUT'', PInt (- 1)), (''TEMP_OUT_STDERR'', PStr ''pipe_ls_7.stderr'')],
            file_sets = \<lparr>fs_executable = [''/bin/ls''], fs_requirements = [], fs_input = [],
                          fs_output = [], fs_auxiliary = [],
                          fs_temporary_fname = [''pipe_ls_7.stderr''], fs_output_fname = []\<rparr>\<rparr>
   \<and> kw_get [(''OUT_STDOUT'', PIPE)] ''OUT_STDERR'' = PNone
   \<and> kw_get [(''OUT_STDOUT'', PIPE)] ''TEMP_OUT_STDERR'' = PNone
   \<and> dict_get [(''OUT_STDOUT'', PInt (- 1)), (''TEMP_OUT_STDERR'', PStr ''pipe_ls_7.stderr'')]
         ''TEMP_OUT_STDERR'' = Some (PStr ''pipe_ls_7.stderr'')"
proof -
  have h: "init example_env 7 [''/bin/ls''] False [(''OUT_STDOUT'', PIPE)]
     = Inr \<lparr>proc = None, temp = None, command = [''/bin/ls''], handles = [], set_cwd = False,
            files = [(''OUT_STDOUT'', PInt (- 1)), (''TEMP_OUT_STDERR'', PStr ''pipe_ls_7.stderr'')],
            file_sets = \<lparr>fs_executable = [''/bin/ls''], fs_requirements = [], fs_input = [],
                          fs_output = [], fs_auxiliary = [],
                          fs_temporary_fname = [''pipe_ls_7.stderr''], fs_output_fname = []\<rparr>\<rparr>"
    by code_simp
  have k: "kw_get [(''OUT_STDOUT'', PIPE)] ''OUT_STDERR'' = PNone
           \<and> kw_get [(''OUT_STDOUT'', PIPE)] ''TEMP_OUT_STDERR'' = PNone"
    by (simp add: kw_get_def dict_get_def)
  from missing_streams_are_filled [OF h] k
  have "dict_get [(''OUT_STDOUT'', PInt (- 1)), (''TEMP_OUT_STDERR'', PStr ''pipe_ls_7.stderr'')]
         ''TEMP_OUT_STDERR''
        = Some (PStr (''pipe_'' @ basename (hd [''/bin/ls'']) @ ''_'' @ str_int 7 @ ''.stderr''))"
    by simp
  then have "dict_get [(''OUT_STDOUT'', PInt (- 1)), (''TEMP_OUT_STDERR'', PStr ''pipe_ls_7.stderr'')]
         ''TEMP_OUT_STDERR'' = Some (PStr ''pipe_ls_7.stderr'')"
    by (simp add: basename_def str_int_7)
  with h k show ?thesis by blast
qed

lemma dict_get_Nil: "dict_get [] k = None"
  by (simp add: dict_get_def)

lemma keys_of_output_Nil: "keys_of_output [] f = []"
  by (simp add: keys_of_output_def)

lemma dict_get_dict_append:
  "dict_get (dict_append d k x) k' =
     (if k' = k then Some ((case dict_get d k of None \<Rightarrow> [] | Some xs \<Rightarrow> xs) @ [x])
      else dict_get d k')"
  by (simp add: dict_append_def dict_get_dict_set)

lemma distinct_dict_append: "distinct (map fst d) \<Longrightarrow> distinct (map fst (dict_append d k x))"
  by (simp add: dict_append_def distinct_dict_set)

lemma distinct_collect_outputs:
  "distinct (map fst acc) \<Longrightarrow> distinct (map fst (collect_outputs kw acc))"
proof (induction kw arbitrary: acc)
  case Nil
  then show ?case by simp
next
  case (Cons kv kw)
  obtain key val where kv: "kv = (key, val)" by (cases kv)
  show ?case
    by (cases val) (simp_all add: kv Cons distinct_dict_append)
qed

lemma dict_get_collect_outputs:
  "dict_get (collect_outputs kw acc) f =
     (if (keys_of_output kw f) = [] then dict_get acc f
      else Some ((case dict_get acc f of None \<Rightarrow> [] | Some xs \<Rightarrow> xs)
                 @ (keys_of_output kw f)))"
proof (induction kw arbitrary: acc)
  case Nil
  then show ?case by (simp add: keys_of_output_Nil)
next
  case (Cons kv kw)
  obtain key val where kv: "kv = (key, val)" by (cases kv)
  show ?case
    by (cases val)
       (simp_all add: kv Cons.IH dict_get_dict_append keys_of_output_def has_basename_def)
qed

lemma check_outputs_Inr:
  "check_outputs d = Inr () \<longleftrightarrow> (\<forall>(f, ks) \<in> set d. length ks \<le> 1)"
proof (induction d)
  case Nil
  then show ?case by simp
next
  case (Cons a d)
  obtain f ks where a: "a = (f, ks)" by (cases a)
  show ?case
    by (cases "1 < length ks") (simp_all add: a Cons.IH)
qed

lemma check_outputs_Inl:
  "check_outputs d = Inl err \<Longrightarrow>
     \<exists>f ks. (f, ks) \<in> set d \<and> 1 < length ks
       \<and> err = ValueError (''Same output filename ('' @ f
                              @ '') is specified for multiple keys: '' @ str_join '', '' ks)"
proof (induction d)
  case Nil
  then show ?case by simp
next
  case (Cons a d)
  obtain f ks where a: "a = (f, ks)" by (cases a)
  show ?case
  proof (cases "1 < length ks")
    case True
    with Cons.prems have "err = ValueError (''Same output filename ('' @ f
                              @ '') is specified for multiple keys: '' @ str_join '', '' ks)"
      by (simp add: a)
    with True show ?thesis unfolding a by (intro exI [of _ f] exI [of _ ks]) simp
  next
    case False
    with Cons.prems have "check_outputs d = Inl err" by (simp add: a)
    from Cons.IH [OF this] show ?thesis by auto
  qed
qed

lemma two_members_length: "a \<in> set xs \<Longrightarrow> b \<in> set xs \<Longrightarrow> a \<noteq> b \<Longrightarrow> 1 < length xs"
  by (cases xs; cases "tl xs") auto

lemma output_key_listed:
  "(k, PStr p) \<in> set kw \<Longrightarrow> is_output_key k \<Longrightarrow>
     k \<in> set (keys_of_output kw (basename p))"
  by (induction kw) (auto simp: keys_of_output_def has_basename_def)

lemma shared_basename_rejected:
  assumes "(k1, PStr p1) \<in> set kw" "(k2, PStr p2) \<in> set kw"
    and "is_output_key k1" "is_output_key k2" "k1 \<noteq> k2" "basename p1 = basename p2"
  shows "check_outputs (collect_outputs kw []) \<noteq> Inr ()"
proof -
  let ?ks = "(keys_of_output kw (basename p1))"
  have "k1 \<in> set ?ks" using assms(1,3) by (rule output_key_listed)
  moreover have "k2 \<in> set ?ks" using output_key_listed [OF assms(2,4)] assms(6) by simp
  ultimately have len: "1 < length ?ks" using assms(5) by (rule two_members_length)
  then have "?ks \<noteq> []" by auto
  then have "dict_get (collect_outputs kw []) (basename p1) = Some ?ks"
    by (simp add: dict_get_collect_outputs dict_get_Nil)
  then have "(basename p1, ?ks) \<in> set (collect_outputs kw [])"
    by (simp add: dict_get_def map_of_SomeD)
  with len show ?thesis
    by (force simp: check_outputs_Inr)
qed

lemma check_outputs_names_keys:
  assumes "check_outputs (collect_outputs kw []) = Inl err"
  shows "\<exists>f. 1 < length (keys_of_output kw f)
           \<and> err = ValueError (''Same output filename ('' @ f
                  @ '') is specified for multiple keys: ''
                  @ str_join '', '' (keys_of_output kw f))"
proof -
  from check_outputs_Inl [OF assms] obtain f ks where
    mem: "(f, ks) \<in> set (collect_outputs kw [])" and len: "1 < length ks"
    and err: "err = ValueError (''Same output filename ('' @ f
                  @ '') is specified for multiple keys: '' @ str_join '', '' ks)"
    by blast
  have "distinct (map fst (collect_outputs kw []))"
    by (rule distinct_collect_outputs) simp
  with mem have "dict_get (collect_outputs kw []) f = Some ks"
    by (simp add: dict_get_def)
  then have "ks = (keys_of_output kw f)"
    by (simp add: dict_get_collect_outputs dict_get_Nil split: if_splits)
  with len err show ?thesis by blast
qed

text \<open>
  Claim C5, as amended. In every accepted descriptor no two output slots supplied by the
  caller (\<^verbatim>\<open>OUT_\<close> or \<^verbatim>\<open>TEMP_OUT_\<close>, with a string value) have the same basename. A slot
  map in which two of them share a basename, and which passes the checks made before
  (pipes, keys, types, non-empty command), is rejected with the \<^verbatim>\<open>ValueError\<close> that names a
  duplicated filename and exactly the supplied keys that have it. The slots filled in
  for the standard streams take no part in the check.
\<close>

theorem supplied_outputs_unique:
  "(\<forall>c. init e proc_id cmd cwd kwargs = Inr c \<longrightarrow>
      (\<forall>k1 p1 k2 p2. (k1, PStr p1) \<in> set kwargs \<and> (k2, PStr p2) \<in> set kwargs
          \<and> is_output_key k1 \<and> is_output_key k2 \<and> k1 \<noteq> k2
          \<longrightarrow> basename p1 \<noteq> basename p2))
   \<and> ((\<exists>k1 p1 k2 p2. (k1, PStr p1) \<in> set kwargs \<and> (k2, PStr p2) \<in> set kwargs
          \<and> is_output_key k1 \<and> is_output_key k2 \<and> k1 \<noteq> k2 \<and> basename p1 = basename p2)
        \<and> cmd \<noteq> [] \<and> hd cmd \<noteq> [] \<and> validate_pipes kwargs = Inr ()
        \<and> (\<exists>fl. collect_files (env_repr e) kwargs [] = Inr fl)
       \<longrightarrow> (\<exists>f. 1 < length (keys_of_output kwargs f)
              \<and> init e proc_id cmd cwd kwargs
                  = Inl (ValueError (''Same output filename ('' @ f
                      @ '') is specified for multiple keys: ''
                      @ str_join '', '' (keys_of_output kwargs f)))))"
proof (intro conjI allI impI)
  fix c k1 p1 k2 p2
  assume ok: "init e proc_id cmd cwd kwargs = Inr c"
    and dup: "(k1, PStr p1) \<in> set kwargs \<and> (k2, PStr p2) \<in> set kwargs
          \<and> is_output_key k1 \<and> is_output_key k2 \<and> k1 \<noteq> k2"
  have "check_outputs (collect_outputs kwargs []) = Inr ()"
    using init_Inr(3) [OF ok] by (rule process_arguments_Inr(2))
  with dup shared_basename_rejected [of k1 p1 kwargs k2 p2]
  show "basename p1 \<noteq> basename p2" by blast
next
  assume h: "(\<exists>k1 p1 k2 p2. (k1, PStr p1) \<in> set kwargs \<and> (k2, PStr p2) \<in> set kwargs
          \<and> is_output_key k1 \<and> is_output_key k2 \<and> k1 \<noteq> k2 \<and> basename p1 = basename p2)
        \<and> cmd \<noteq> [] \<and> hd cmd \<noteq> [] \<and> validate_pipes kwargs = Inr ()
        \<and> (\<exists>fl. collect_files (env_repr e) kwargs [] = Inr fl)"
  then obtain fl where fl: "collect_files (env_repr e) kwargs [] = Inr fl" by blast
  from h obtain c0 rest where cmd: "cmd = c0 # rest" by (cases cmd) auto
  from h shared_basename_rejected have "check_outputs (collect_outputs kwargs []) \<noteq> Inr ()"
    by blast
  then obtain err where err: "check_outputs (collect_outputs kwargs []) = Inl err"
    by (cases "check_outputs (collect_outputs kwargs [])") auto
  have "init e proc_id cmd cwd kwargs = Inl err"
    using h fl err by (simp add: init_def process_arguments_def cmd Let_def)
  with check_outputs_names_keys [OF err]
  show "\<exists>f. 1 < length (keys_of_output kwargs f)
              \<and> init e proc_id cmd cwd kwargs
                  = Inl (ValueError (''Same output filename ('' @ f
                      @ '') is specified for multiple keys: ''
                      @ str_join '', '' (keys_of_output kwargs f)))"
    by auto
qed

theorem supplied_outputs_unique_witness:
  "(\<exists>c. init example_env 7 [''ls''] False [(''OUT_A'', PStr ''/d/a''), (''TEMP_OUT_B'', PStr ''b'')] = Inr c)
   \<and> basename ''/d/a'' \<noteq> basename ''b''
   \<and> validate_pipes [(''OUT_A'', PStr ''/d/x''), (''OUT_B'', PStr ''/e/x'')] = Inr ()
   \<and> (\<exists>fl. collect_files (env_repr example_env) [(''OUT_A'', PStr ''/d/x''), (''OUT_B'', PStr ''/e/x'')] []
             = Inr fl)
   \<and> basename ''/d/x'' = basename ''/e/x''
   \<and> init example_env 7 [''ls''] False [(''OUT_A'', PStr ''/d/x''), (''OUT_B'', PStr ''/e/x'')]
       = Inl (ValueError ''Same output filename (x) is specified for multiple keys: OUT_A, OUT_B'')"
proof -
  let ?good = "[(''OUT_A'', PStr ''/d/a''), (''TEMP_OUT_B'', PStr ''b'')]"
  let ?bad = "[(''OUT_A'', PStr ''/d/x''), (''OUT_B'', PStr ''/e/x'')]"
  have "case init example_env 7 [''ls''] False ?good of Inl _ \<Rightarrow> False | Inr _ \<Rightarrow> True"
    by code_simp
  then have g: "\<exists>c. init example_env 7 [''ls''] False ?good = Inr c"
    by (cases "init example_env 7 [''ls''] False ?good") auto
  have mem: "(''OUT_A'', PStr ''/d/a'') \<in> set ?good \<and> (''TEMP_OUT_B'', PStr ''b'') \<in> set ?good
             \<and> is_output_key ''OUT_A'' \<and> is_output_key ''TEMP_OUT_B'' \<and> ''OUT_A'' \<noteq> ''TEMP_OUT_B''"
    by (simp add: is_output_key_def startswith_def)
  from g mem supplied_outputs_unique [of example_env 7 "[''ls'']" False ?good]
  have c1: "basename ''/d/a'' \<noteq> basename ''b''" by blast
  have vp: "validate_pipes ?bad = Inr ()"
    by code_simp
  have "case collect_files (env_repr example_env) ?bad [] of Inl _ \<Rightarrow> False | Inr _ \<Rightarrow> True"
    by code_simp
  then have cf: "\<exists>fl. collect_files (env_repr example_env) ?bad [] = Inr fl"
    by (cases "collect_files (env_repr example_env) ?bad []") auto
  have bn: "basename ''/d/x'' = basename ''/e/x''"
    by (simp add: basename_def)
  have dup: "\<exists>k1 p1 k2 p2. (k1, PStr p1) \<in> set ?bad \<and> (k2, PStr p2) \<in> set ?bad
          \<and> is_output_key k1 \<and> is_output_key k2 \<and> k1 \<noteq> k2 \<and> basename p1 = basename p2"
    apply (rule exI [of _ "''OUT_A''"], rule exI [of _ "''/d/x''"])
    apply (rule exI [of _ "''OUT_B''"], rule exI [of _ "''/e/x''"])
    apply (simp add: is_output_key_def startswith_def bn)
    done
  have cmd: "[''ls''] \<noteq> [] \<and> hd [''ls''] \<noteq> []" by simp
  from supplied_outputs_unique [of example_env 7 "[''ls'']" False ?bad] dup cmd vp cf
  obtain f where len: "1 < length (keys_of_output ?bad f)"
    and res: "init example_env 7 [''ls''] False ?bad
                = Inl (ValueError (''Same output filename ('' @ f
                      @ '') is specified for multiple keys: ''
                      @ str_join '', '' (keys_of_output ?bad f)))"
    by blast
  from len have f: "f = ''x''"
    by (simp add: keys_of_output_def has_basename_def basename_def is_output_key_def startswith_def
             split: if_splits)
  have "init example_env 7 [''ls''] False ?bad
          = Inl (ValueError ''Same output filename (x) is specified for multiple keys: OUT_A, OUT_B'')"
    unfolding res f
    by (simp add: keys_of_output_def has_basename_def basename_def is_output_key_def startswith_def)
  with g c1 vp cf bn show ?thesis by (intro conjI)
qed

lemma process_files_append:
  "process_files V R (xs @ ys) fls err =
     (case process_files V R xs fls err of
        (True, fls', err') \<Rightarrow> process_files V R ys fls' err'
      | (False, r) \<Rightarrow> (False, r))"
  by (induction xs arbitrary: fls err) (auto split: option.splits)

lemma process_sorted_append:
  "process_sorted V R (xs @ ys) samples err =
     (case process_sorted V R xs samples err of
        (True, samples', err') \<Rightarrow> process_sorted V R ys samples' err'
      | (False, r) \<Rightarrow> (False, r))"
proof (induction xs arbitrary: samples err)
  case Nil
  then show ?case by simp
next
  case (Cons x xs)
  obtain name root fe where x: "x = (name, root, fe)" by (cases x)
  obtain ok fls e2 where r:
    "process_files V R (given_files fe) [] (err @ [validating R name]) = (ok, fls, e2)"
    by (cases "process_files V R (given_files fe) [] (err @ [validating R name])")
  show ?case
    by (cases ok) (simp_all add: x Cons.IH Let_def r)
qed

lemma process_files_second_mito:
  assumes "V f = Some ft" "\<not> is_nuclear ft" "is_mitochondrial ft" "dict_get fls ''Mito'' \<noteq> None"
  shows "process_files V R (f # rest) fls err =
           (False, fls, err @ [''ERROR: Two nuclear BAMs specified!'' @ NL])"
  using assms by simp

lemma process_files_second_nuclear:
  assumes "V f = Some ft" "is_nuclear ft" "dict_get fls ''Nuc'' \<noteq> None"
  shows "process_files V R (f # rest) fls err =
           (False, fls, err @ [''ERROR: Two nuclear BAMs specified!'' @ NL])"
  using assms by simp

text \<open>
  Claim C9. When the file list of a sample reaches a BAM file that is mitochondrial only
  while a \<^verbatim>\<open>Mito\<close> entry is already recorded, the validator returns \<^verbatim>\<open>False\<close>, and the
  line it writes is \<^verbatim>\<open>ERROR: Two nuclear BAMs specified!\<close>, the very line written for a
  second nuclear BAM file.
\<close>

theorem second_mito_reports_two_nuclear:
  assumes sorted: "sort_key fst samples = before @ (name, root, Given (pre @ f # rest)) # after"
    and before: "process_sorted V R before samples [] = (True, samples1, err1)"
    and pre: "process_files V R pre []
                (err1 @ [validating R name]) = (True, fls, err2)"
    and mito: "dict_get fls ''Mito'' \<noteq> None"
    and f: "V f = Some ft" "\<not> is_nuclear ft" "is_mitochondrial ft"
  shows "process_samples V R samples =
           (False, dict_set samples1 name (root, Popped),
            err2 @ [''ERROR: Two nuclear BAMs specified!'' @ NL])
       \<and> (\<forall>g ftn fls' rest' err'.
             V g = Some ftn \<and> is_nuclear ftn \<and> \<not> is_mitochondrial ftn \<and> dict_get fls' ''Nuc'' \<noteq> None
             \<longrightarrow> process_files V R (g # rest') fls' err' =
                   (False, fls', err' @ [''ERROR: Two nuclear BAMs specified!'' @ NL]))"
proof -
  have inner: "process_files V R (pre @ f # rest) []
                (err1 @ [validating R name])
               = (False, fls, err2 @ [''ERROR: Two nuclear BAMs specified!'' @ NL])"
    using process_files_second_mito [of V f ft fls R rest err2, OF f mito]
    by (simp only: process_files_append pre prod.case bool.case)
  have "process_samples V R samples =
          process_sorted V R ((name, root, Given (pre @ f # rest)) # after) samples1 err1"
    by (simp add: process_samples_def sorted process_sorted_append before)
  also have "\<dots> = (False, dict_set samples1 name (root, Popped),
                     err2 @ [''ERROR: Two nuclear BAMs specified!'' @ NL])"
    using inner by (simp add: given_files_def Let_def del: process_files.simps)
  finally have main: "process_samples V R samples =
           (False, dict_set samples1 name (root, Popped),
            err2 @ [''ERROR: Two nuclear BAMs specified!'' @ NL])" .
  have nuc: "process_files V R (g # rest') fls' err' =
               (False, fls', err' @ [''ERROR: Two nuclear BAMs specified!'' @ NL])"
    if "V g = Some ftn" "is_nuclear ftn" "dict_get fls' ''Nuc'' \<noteq> None"
    for g ftn fls' rest' err'
    using that by (rule process_files_second_nuclear)
  from main nuc show ?thesis by blast
qed


theorem second_mito_reports_two_nuclear_witness:
  "sort_key fst [(''-'', ''out'', Given [''mt1.bam'', ''mt2.bam''])]
     = [] @ (''-'', ''out'', Given ([''mt1.bam''] @ ''mt2.bam'' # [])) # []
   \<and> example_validate_bam ''mt2.bam'' = Some \<lparr>is_nuclear = False, is_mitochondrial = True\<rparr>
   \<and> dict_get [(''Mito'', ''mt1.bam'')] ''Mito'' \<noteq> None
   \<and> process_samples example_validate_bam (\<lambda>s. s) [(''-'', ''out'', Given [''mt1.bam'', ''mt2.bam''])]
       = (False, [(''-'', ''out'', Popped)],
          [''Validating unnamed sample ...'' @ NL, ''ERROR: Two nuclear BAMs specified!'' @ NL])"
proof -
  let ?S = "[(''-'', ''out'', Given [''mt1.bam'', ''mt2.bam''])]"
  let ?ft = "\<lparr>is_nuclear = False, is_mitochondrial = True\<rparr>"
  have s: "sort_key fst ?S = [] @ (''-'', ''out'', Given ([''mt1.bam''] @ ''mt2.bam'' # [])) # []"
    by simp
  have b: "process_sorted example_validate_bam (\<lambda>s. s) [] ?S [] = (True, ?S, [])"
    by simp
  have p: "process_files example_validate_bam (\<lambda>s. s) [''mt1.bam''] []
             ([] @ [validating (\<lambda>s. s) ''-'']) = (True, [(''Mito'', ''mt1.bam'')], [validating (\<lambda>s. s) ''-''])"
    by (simp add: example_validate_bam_def dict_get_def)
  have m: "dict_get [(''Mito'', ''mt1.bam'')] ''Mito'' \<noteq> None"
    by (simp add: dict_get_def)
  have f: "example_validate_bam ''mt2.bam'' = Some ?ft" "\<not> is_nuclear ?ft" "is_mitochondrial ?ft"
    by (simp_all add: example_validate_bam_def)
  from second_mito_reports_two_nuclear [OF s b p m f]
  have "process_samples example_validate_bam (\<lambda>s. s) ?S
          = (False, dict_set ?S ''-'' (''out'', Popped),
             [validating (\<lambda>s. s) ''-''] @ [''ERROR: Two nuclear BAMs specified!'' @ NL])"
    by blast
  then have "process_samples example_validate_bam (\<lambda>s. s) ?S
       = (False, [(''-'', ''out'', Popped)],
          [''Validating unnamed sample ...'' @ NL, ''ERROR: Two nuclear BAMs specified!'' @ NL])"
    by (simp add: validating_def)
  with s f(1) m show ?thesis by blast
qed

text \<open>
  Claim C5 as stated fails: the descriptor with id 7 for the command \<^verbatim>\<open>ls\<close> and the one
  slot \<^verbatim>\<open>OUT_FOO = /data/pipe_ls_7.stdout\<close> is accepted, and its output slot \<^verbatim>\<open>OUT_FOO\<close>
  and the filled-in slot \<^verbatim>\<open>TEMP_OUT_STDOUT\<close> have the same basename.
\<close>

theorem autofilled_output_collision:
  "map_sum id files (init example_env 7 [''ls''] False [(''OUT_FOO'', PStr ''/data/pipe_ls_7.stdout'')])
     = Inr [(''OUT_FOO'', PStr ''/data/pipe_ls_7.stdout''),
            (''TEMP_OUT_STDOUT'', PStr ''pipe_ls_7.stdout''),
            (''TEMP_OUT_STDERR'', PStr ''pipe_ls_7.stderr'')]
   \<and> is_output_key ''OUT_FOO'' \<and> is_output_key ''TEMP_OUT_STDOUT''
   \<and> basename ''/data/pipe_ls_7.stdout'' = basename ''pipe_ls_7.stdout''"
  by code_simp

subsection \<open>Joining a descriptor that was never run\<close>

text \<open>
  Claim C10. \<^verbatim>\<open>join\<close> on a descriptor that was constructed and never run does not raise:
  it returns the list \<^verbatim>\<open>[None]\<close>, so that \<^verbatim>\<open>wait\<close> returns \<^verbatim>\<open>None\<close>, and the handle map is
  empty afterwards.
\<close>

theorem join_before_run:
  assumes "init e proc_id cmd cwd kwargs = Inr c"
  shows "join c w = Some ([None], c, w) \<and> handles c = [] \<and> wait c w = Some (None, c, w)"
proof -
  from assms have p: "proc c = None" and h: "handles c = []"
    by (auto simp: init_def split: if_splits sum.splits)
  have "close_handles [] w = w"
    by (simp add: close_handles_def)
  with p h have j: "join c w = Some ([None], c, w)"
    by (simp add: join_def)
  then show ?thesis
    using h by (simp add: wait_def)
qed

theorem join_before_run_witness:
  "(\<exists>c. init example_env 7 [''/bin/true''] False [] = Inr c
        \<and> join c example_world = Some ([None], c, example_world) \<and> handles c = []
        \<and> wait c example_world = Some (None, c, example_world))"
proof -
  have "case init example_env 7 [''/bin/true''] False [] of Inl _ \<Rightarrow> False | Inr _ \<Rightarrow> True"
    by code_simp
  then have "\<exists>c. init example_env 7 [''/bin/true''] False [] = Inr c"
    by (cases "init example_env 7 [''/bin/true''] False []") auto
  then obtain c where c: "init example_env 7 [''/bin/true''] False [] = Inr c" ..
  from join_before_run [OF c] c show ?thesis by blast
qed

end
